theory Spec2Isabelle
  imports Main "HOL-Library.Word"
begin

section \<open>The searchable single-select widget (\<open>Select\<close>)\<close>

text \<open>
  A shallow embedding of the \<open>Select\<close> component of \<open>src/unnamed/part_000\<close>: its props,
  its hook state, the values derived from them on each render pass, its event handlers and
  the search effect. A handler takes the props and the state of the render pass it was
  created in and returns the next state together with the calls it made to the outside.
\<close>

subsection \<open>Values\<close>

text \<open>
  The option values \<open>V\<close> are arbitrary JavaScript values. An object carries the identity
  of its reference next to its fields, since \<open>===\<close> compares objects by reference. Numbers
  are restricted to the integers from \<open>-2^53\<close> to \<open>2^53 - 1\<close>, read from a 54-bit word
  by \<open>sint\<close>: a JavaScript number holds each of them exactly and \<open>String\<close> prints each with
  all its decimal digits (larger numbers are rounded, and printed with an exponent from
  \<open>1e21\<close>). No arithmetic is done on them.
\<close>

type_synonym safe_integer = "54 word"

datatype jsval =
    JUndefined
  | JNull
  | JBool bool
  | JNum safe_integer
  | JStr string
  | JObj nat "(string \<times> jsval) list"

text \<open>The operator \<open>===\<close>: primitives by value, objects by reference.\<close>

fun strictEqual :: "jsval \<Rightarrow> jsval \<Rightarrow> bool" where
  "strictEqual JUndefined JUndefined = True"
| "strictEqual JNull JNull = True"
| "strictEqual (JBool a) (JBool b) = (a = b)"
| "strictEqual (JNum a) (JNum b) = (a = b)"
| "strictEqual (JStr a) (JStr b) = (a = b)"
| "strictEqual (JObj r _) (JObj r' _) = (r = r')"
| "strictEqual _ _ = False"

text \<open>
  Modelled from the spec: \<open>isDeepEqual\<close> of \<open>proton-shared/lib/helpers/isDeepEqual\<close> is
  imported by the component and is not among the sources. The spec calls it "deep
  structural equality, not reference": primitives are compared by value, objects field by
  field whatever their reference and the order of their keys.
\<close>

fun isDeepEqual :: "jsval \<Rightarrow> jsval \<Rightarrow> bool"
  and fieldsDeepEqual :: "(string \<times> jsval) list \<Rightarrow> (string \<times> jsval) list \<Rightarrow> bool"
  and fieldDeepEqual :: "string \<Rightarrow> jsval \<Rightarrow> (string \<times> jsval) list \<Rightarrow> bool"
where
  "isDeepEqual (JObj r fs) (JObj r' gs) = (length fs = length gs \<and> fieldsDeepEqual fs gs)"
| "isDeepEqual a b = strictEqual a b"
| "fieldsDeepEqual [] gs = True"
| "fieldsDeepEqual ((k, v) # fs) gs = (fieldDeepEqual k v gs \<and> fieldsDeepEqual fs gs)"
| "fieldDeepEqual k v [] = False"
| "fieldDeepEqual k v ((k', w) # gs) = (if k = k' then isDeepEqual v w else fieldDeepEqual k v gs)"

text \<open>\<open>typeof v === 'string'\<close>.\<close>

fun isString :: "jsval \<Rightarrow> bool" where
  "isString (JStr _) = True"
| "isString _ = False"

text \<open>Decimal digits of an integer, for \<open>String(v)\<close> on a number.\<close>

function natToString :: "nat \<Rightarrow> string" where
  "natToString n =
     (if n < 10 then [char_of (48 + n)]
      else natToString (n div 10) @ [char_of (48 + n mod 10)])"
  by pat_completeness auto
termination
  by (relation "measure id") auto

definition intToString :: "int \<Rightarrow> string" where
  "intToString i = (if i < 0 then CHR ''-'' # natToString (nat (- i)) else natToString (nat i))"

text \<open>\<open>String(v)\<close>; a plain object prints as \<open>[object Object]\<close>.\<close>

fun String :: "jsval \<Rightarrow> string" where
  "String JUndefined = ''undefined''"
| "String JNull = ''null''"
| "String (JBool b) = (if b then ''true'' else ''false'')"
| "String (JNum i) = intToString (sint i)"
| "String (JStr s) = s"
| "String (JObj _ _) = ''[object Object]''"

text \<open>\<open>s.startsWith(p)\<close>.\<close>

fun startsWith :: "string \<Rightarrow> string \<Rightarrow> bool" where
  "startsWith s [] = True"
| "startsWith [] (c # p) = False"
| "startsWith (d # s) (c # p) = (d = c \<and> startsWith s p)"

text \<open>\<open>xs.findIndex(P)\<close>: the index of the first element satisfying \<open>P\<close>, or \<open>-1\<close>.\<close>

fun findIndex :: "('a \<Rightarrow> bool) \<Rightarrow> 'a list \<Rightarrow> int" where
  "findIndex P [] = - 1"
| "findIndex P (x # xs) =
     (if P x then 0 else (let r = findIndex P xs in if r = - 1 then - 1 else r + 1))"

subsection \<open>Props and state\<close>

text \<open>
  The props of a child \<open>Option\<close> element that the component reads: its value, its rendered
  content and its title. Absent text is \<open>None\<close>.
\<close>

record option_props =
  opt_value :: jsval
  opt_children :: "string option"
  opt_title :: "string option"

text \<open>
  The props of \<open>Select\<close>. An absent \<open>value\<close> is \<open>JUndefined\<close>; an absent \<open>isOpen\<close>,
  \<open>clearSearchAfter\<close> or \<open>getSearchableValue\<close> is \<open>None\<close>. For a callback the field says
  whether the owner supplied it; a call to it is recorded in the handler's output.
\<close>

record props =
  children :: "option_props list"
  valueProp :: jsval
  placeholder :: "string option"
  controlledOpen :: "bool option"
  onClose :: bool
  onOpen :: bool
  onChangeProp :: bool
  clearSearchAfterProp :: "nat option"
  getSearchableValue :: "(jsval \<Rightarrow> string) option"

text \<open>Calls that leave the component.\<close>

datatype call =
    OnOpen
  | OnClose
  | OnChange jsval int
  | PreventDefault
  | FocusAnchor

text \<open>
  The hook state (\<open>focusedIndex\<close>, \<open>uncontrolledOpen\<close>, \<open>search\<close> and the ref
  \<open>searchClearTimeout\<close>), together with the timeouts pending in the window: each with its
  handle and the milliseconds left before it fires. Every timeout the component schedules
  runs \<open>setSearch('')\<close>.
\<close>

record state =
  focusedIndex :: "int option"
  uncontrolledOpen :: bool
  search :: string
  searchClearTimeout :: "nat option"
  pendingTimeouts :: "(nat \<times> nat) list"
  nextHandle :: nat

definition initialState :: state where
  "initialState =
     \<lparr> focusedIndex = None, uncontrolledOpen = False, search = [],
       searchClearTimeout = None, pendingTimeouts = [], nextHandle = 1 \<rparr>"

text \<open>\<open>window.clearTimeout(h)\<close> and \<open>window.setTimeout(..., ms)\<close>.\<close>

definition clearTimeout :: "nat option \<Rightarrow> state \<Rightarrow> state" where
  "clearTimeout h st =
     (case h of
        None \<Rightarrow> st
      | Some k \<Rightarrow> st\<lparr>pendingTimeouts := filter (\<lambda>(k', _). k' \<noteq> k) (pendingTimeouts st)\<rparr>)"

definition setTimeout :: "nat \<Rightarrow> state \<Rightarrow> nat \<times> state" where
  "setTimeout ms st =
     (nextHandle st,
      st\<lparr>pendingTimeouts := pendingTimeouts st @ [(nextHandle st, ms)],
         nextHandle := nextHandle st + 1\<rparr>)"

subsection \<open>Values derived on each render pass\<close>

definition clearSearchAfter :: "props \<Rightarrow> nat" where
  "clearSearchAfter p = (case clearSearchAfterProp p of None \<Rightarrow> 500 | Some ms \<Rightarrow> ms)"

definition isControlled :: "props \<Rightarrow> bool" where
  "isControlled p = (controlledOpen p \<noteq> None)"

definition isOpen :: "props \<Rightarrow> state \<Rightarrow> bool" where
  "isOpen p st = (case controlledOpen p of Some b \<Rightarrow> b | None \<Rightarrow> uncontrolledOpen st)"

definition allOptionValues :: "props \<Rightarrow> jsval list" where
  "allOptionValues p = map opt_value (children p)"

definition isNaturallySearchable :: "props \<Rightarrow> bool" where
  "isNaturallySearchable p = list_all isString (allOptionValues p)"

definition isSearchable :: "props \<Rightarrow> bool" where
  "isSearchable p = (isNaturallySearchable p \<or> getSearchableValue p \<noteq> None)"

definition selectedIndex :: "props \<Rightarrow> int option" where
  "selectedIndex p =
     (let index = findIndex (\<lambda>child. strictEqual (opt_value child) (valueProp p)) (children p)
      in if index \<noteq> - 1 then Some index else None)"

text \<open>
  The searchable string of a value in the search effect,
  \<open>getSearchableValue?.(v) || String(v)\<close>: the empty string is falsy.
\<close>

definition searchableString :: "props \<Rightarrow> jsval \<Rightarrow> string" where
  "searchableString p v =
     (case getSearchableValue p of
        None \<Rightarrow> String v
      | Some g \<Rightarrow> (if g v \<noteq> [] then g v else String v))"

subsection \<open>The search effect\<close>

definition searchEffect :: "props \<Rightarrow> state \<Rightarrow> state" where
  "searchEffect p st =
     (if search st = [] then st
      else if \<not> isSearchable p then st
      else
        let st1 = clearTimeout (searchClearTimeout st) st;
            (h, st2) = setTimeout (clearSearchAfter p) st1;
            st3 = st2\<lparr>searchClearTimeout := Some h\<rparr>;
            indexOfMatchedOption =
              findIndex (\<lambda>v. startsWith (searchableString p v) (search st)) (allOptionValues p)
        in if indexOfMatchedOption \<noteq> - 1
           then st3\<lparr>focusedIndex := Some indexOfMatchedOption\<rparr>
           else st3)"

subsection \<open>Handlers\<close>

text \<open>An optional callback is called when the owner supplied it (\<open>onOpen?.()\<close>).\<close>

definition callIfSupplied :: "bool \<Rightarrow> call \<Rightarrow> call list" where
  "callIfSupplied supplied c = (if supplied then [c] else [])"

text \<open>\<open>selectedIndex || 0\<close>.\<close>

definition selectedIndexOrZero :: "props \<Rightarrow> int" where
  "selectedIndexOrZero p = (case selectedIndex p of None \<Rightarrow> 0 | Some i \<Rightarrow> i)"

definition "open" :: "props \<Rightarrow> state \<Rightarrow> state \<times> call list" where
  "open p st =
     (let (st1, out) =
            (if isControlled p then (st, callIfSupplied (onOpen p) OnOpen)
             else (st\<lparr>uncontrolledOpen := True\<rparr>, []))
      in (st1\<lparr>focusedIndex := Some (selectedIndexOrZero p)\<rparr>, out))"

definition close :: "props \<Rightarrow> state \<Rightarrow> state \<times> call list" where
  "close p st =
     (if isControlled p then (st, callIfSupplied (onClose p) OnClose)
      else (st\<lparr>uncontrolledOpen := False\<rparr>, []))"

definition goToPreviousItem :: "props \<Rightarrow> state \<Rightarrow> state" where
  "goToPreviousItem p st =
     (case focusedIndex st of
        None \<Rightarrow> st
      | Some i \<Rightarrow> if i \<noteq> 0 then st\<lparr>focusedIndex := Some (i - 1)\<rparr> else st)"

definition goToNextItem :: "props \<Rightarrow> state \<Rightarrow> state" where
  "goToNextItem p st =
     (case focusedIndex st of
        None \<Rightarrow> st
      | Some i \<Rightarrow>
          if i \<noteq> int (length (children p)) - 1 then st\<lparr>focusedIndex := Some (i + 1)\<rparr> else st)"

definition handleAnchorClick :: "props \<Rightarrow> state \<Rightarrow> state \<times> call list" where
  "handleAnchorClick p st = (if isOpen p st then close p st else open p st)"

definition handleAnchorKeydown :: "props \<Rightarrow> state \<Rightarrow> string \<Rightarrow> state \<times> call list" where
  "handleAnchorKeydown p st key = (if key = '' '' then open p st else (st, []))"

definition handleChange :: "props \<Rightarrow> jsval \<times> int \<Rightarrow> call list" where
  "handleChange p event = callIfSupplied (onChangeProp p) (OnChange (fst event) (snd event))"

text \<open>The test \<open>/^[a-z0-9]+$/i\<close> on a key name.\<close>

definition isAlnumChar :: "char \<Rightarrow> bool" where
  "isAlnumChar c =
     (let n = (of_char c :: nat)
      in (48 \<le> n \<and> n \<le> 57) \<or> (65 \<le> n \<and> n \<le> 90) \<or> (97 \<le> n \<and> n \<le> 122))"

definition isAlphanumeric :: "string \<Rightarrow> bool" where
  "isAlphanumeric key = (key \<noteq> [] \<and> list_all isAlnumChar key)"

definition handleMenuKeydown :: "props \<Rightarrow> state \<Rightarrow> string \<Rightarrow> state \<times> call list" where
  "handleMenuKeydown p st key =
     (let (st1, out) =
            (if key = ''ArrowUp'' then (goToPreviousItem p st, [PreventDefault])
             else if key = ''ArrowDown'' then (goToNextItem p st, [PreventDefault])
             else if key = ''Escape'' then
               (let (st', out') = close p st in (st', out' @ [FocusAnchor]))
             else (st, []))
      in if isAlphanumeric key \<and> isSearchable p \<and> length key = 1
         then (st1\<lparr>search := search st1 @ key\<rparr>, out)
         else (st1, out))"

definition handleChildChange :: "props \<Rightarrow> state \<Rightarrow> int \<Rightarrow> jsval \<Rightarrow> state \<times> call list" where
  "handleChildChange p st index v = (st, handleChange p (v, index))"

subsection \<open>What is rendered\<close>

text \<open>The props cloned into each item: \<open>selected\<close> and \<open>active\<close>.\<close>

record item_props =
  selected :: bool
  active :: bool

definition items :: "props \<Rightarrow> state \<Rightarrow> item_props list" where
  "items p st =
     map (\<lambda>(child, index).
            \<lparr> selected = isDeepEqual (opt_value child) (valueProp p),
              active = (focusedIndex st = Some (int index)) \<rparr>)
         (zip (children p) [0 ..< length (children p)])"

definition selectedChild :: "props \<Rightarrow> option_props option" where
  "selectedChild p =
     (case selectedIndex p of
        None \<Rightarrow> None
      | Some i \<Rightarrow> Some (children p ! nat i))"

text \<open>\<open>a || b\<close> on optional text: absent and empty text are falsy.\<close>

definition orElse :: "string option \<Rightarrow> string option \<Rightarrow> string option" where
  "orElse a b = (if a \<noteq> None \<and> a \<noteq> Some [] then a else b)"

definition displayedValue :: "props \<Rightarrow> string option" where
  "displayedValue p =
     (case selectedChild p of
        None \<Rightarrow> placeholder p
      | Some c \<Rightarrow> orElse (orElse (opt_children c) (opt_title c)) (placeholder p))"

subsection \<open>Events and render passes\<close>

text \<open>
  Modelled from the spec: the \<open>Option\<close> component (\<open>../option/Option\<close>) is not among the
  sources. By the spec, activating an item commits it and emits the change event
  \<open>{ value, selectedIndex }\<close>: the item calls the \<open>onChange\<close> it was given,
  \<open>handleChildChange(index)\<close>, with its own value.
\<close>

definition activateOption :: "props \<Rightarrow> state \<Rightarrow> nat \<Rightarrow> state \<times> call list" where
  "activateOption p st i =
     (if i < length (children p)
      then handleChildChange p st (int i) (opt_value (children p ! i))
      else (st, []))"

text \<open>
  The passing of \<open>ms\<close> milliseconds: every pending timeout with no more than \<open>ms\<close> left
  fires and runs its callback \<open>setSearch('')\<close>; the others come closer.
\<close>

definition elapse :: "nat \<Rightarrow> state \<Rightarrow> state" where
  "elapse ms st =
     (let due = filter (\<lambda>(_, left). left \<le> ms) (pendingTimeouts st);
          rest = map (\<lambda>(h, left). (h, left - ms))
                     (filter (\<lambda>(_, left). \<not> left \<le> ms) (pendingTimeouts st));
          st1 = st\<lparr>pendingTimeouts := rest\<rparr>
      in if due = [] then st1 else st1\<lparr>search := []\<rparr>)"

text \<open>
  What can happen to a mounted component: a click or a key on the anchor, a key in the
  menu, the activation of the item at an index, a close request of the dropdown
  (\<open>onClose={close}\<close>), and the passing of time.
\<close>

datatype event =
    AnchorClick
  | AnchorKeydown string
  | MenuKeydown string
  | OptionActivated nat
  | DropdownClose
  | Elapse nat

fun handle :: "props \<Rightarrow> state \<Rightarrow> event \<Rightarrow> state \<times> call list" where
  "handle p st AnchorClick = handleAnchorClick p st"
| "handle p st (AnchorKeydown key) = handleAnchorKeydown p st key"
| "handle p st (MenuKeydown key) = handleMenuKeydown p st key"
| "handle p st (OptionActivated i) = activateOption p st i"
| "handle p st DropdownClose = close p st"
| "handle p st (Elapse ms) = (elapse ms st, [])"

text \<open>
  One event and the render pass after it: the search effect has the dependency list
  \<open>[search]\<close>, so it runs when the event changed \<open>search\<close>.
\<close>

definition dispatch :: "props \<Rightarrow> state \<Rightarrow> event \<Rightarrow> state \<times> call list" where
  "dispatch p st ev =
     (let (st1, out) = handle p st ev
      in (if search st1 \<noteq> search st then searchEffect p st1 else st1, out))"

fun run :: "props \<Rightarrow> state \<Rightarrow> event list \<Rightarrow> state" where
  "run p st [] = st"
| "run p st (ev # evs) = run p (fst (dispatch p st ev)) evs"

subsection \<open>Invariants of the state\<close>

text \<open>The focus cursor is set and points at an option.\<close>

definition inBounds :: "props \<Rightarrow> state \<Rightarrow> bool" where
  "inBounds p st =
     (case focusedIndex st of
        None \<Rightarrow> False
      | Some i \<Rightarrow> 0 \<le> i \<and> i < int (length (children p)))"



subsection \<open>Concrete widgets\<close>

text \<open>The options \<open>apple\<close>, \<open>banana\<close>, \<open>cherry\<close> of the spec's scenario.\<close>

definition fruitOption :: "string \<Rightarrow> option_props" where
  "fruitOption s = \<lparr> opt_value = JStr s, opt_children = Some s, opt_title = None \<rparr>"

definition fruitSelect :: props where
  "fruitSelect =
     \<lparr> children = [fruitOption ''apple'', fruitOption ''banana'', fruitOption ''cherry''],
       valueProp = JUndefined, placeholder = Some ''Pick a fruit'', controlledOpen = None,
       onClose = False, onOpen = False, onChangeProp = True,
       clearSearchAfterProp = None, getSearchableValue = None \<rparr>"

text \<open>The same widget with its open state owned by the caller.\<close>

definition controlledFruitSelect :: props where
  "controlledFruitSelect = fruitSelect\<lparr>controlledOpen := Some False, onOpen := True, onClose := True\<rparr>"

text \<open>
  A projection \<open>(v) => v === 'apple' ? '' : String(v)\<close>, which gives \<open>apple\<close> no
  searchable text, and the fruit widget with it.
\<close>

definition hideApple :: "jsval \<Rightarrow> string" where
  "hideApple v = (if v = JStr ''apple'' then [] else String v)"

definition hiddenAppleSelect :: props where
  "hiddenAppleSelect = fruitSelect\<lparr>getSearchableValue := Some hideApple\<rparr>"

text \<open>
  The options \<open>{id: 1}\<close>, \<open>{id: 2}\<close> of the spec's scenario, two distinct objects, with no
  projection; the value prop is a third object, a copy \<open>{id: 2}\<close> of the second.
\<close>

definition idOption :: "nat \<Rightarrow> safe_integer \<Rightarrow> string \<Rightarrow> option_props" where
  "idOption r i s =
     \<lparr> opt_value = JObj r [(''id'', JNum i)], opt_children = Some s, opt_title = None \<rparr>"

definition idSelect :: props where
  "idSelect =
     \<lparr> children = [idOption 1 1 ''One'', idOption 2 2 ''Two''],
       valueProp = JObj 3 [(''id'', JNum 2)], placeholder = Some ''Pick an id'',
       controlledOpen = None, onClose = False, onOpen = False, onChangeProp = True,
       clearSearchAfterProp = None, getSearchableValue = None \<rparr>"

text \<open>
  Two options whose values are distinct objects with the same fields \<open>{id: 1}\<close>; the value
  prop is the first of the two objects itself.
\<close>

definition twinSelect :: props where
  "twinSelect =
     idSelect\<lparr>children := [idOption 1 1 ''One'', idOption 2 1 ''Uno''],
              valueProp := JObj 1 [(''id'', JNum 1)]\<rparr>"

section \<open>Properties\<close>

subsection \<open>Auxiliary facts\<close>

lemma findIndex_ge: "- 1 \<le> findIndex P xs"
  by (induction xs) (auto simp: Let_def)

lemma findIndex_none_iff: "(findIndex P xs = - 1) = (\<forall>x\<in>set xs. \<not> P x)"
proof (induction xs)
  case Nil
  show ?case by simp
next
  case (Cons x xs)
  have "- 1 \<le> findIndex P xs" by (rule findIndex_ge)
  with Cons show ?case by (auto simp: Let_def)
qed

lemma findIndex_range:
  "findIndex P xs \<noteq> - 1 \<Longrightarrow> 0 \<le> findIndex P xs \<and> findIndex P xs < int (length xs)"
  by (induction xs) (auto simp: Let_def split: if_splits)

lemma findIndex_first:
  "findIndex P xs \<noteq> - 1 \<Longrightarrow>
     P (xs ! nat (findIndex P xs)) \<and> (\<forall>j < nat (findIndex P xs). \<not> P (xs ! j))"
proof (induction xs)
  case Nil
  then show ?case by simp
next
  case (Cons x xs)
  show ?case
  proof (cases "P x")
    case True
    then show ?thesis by simp
  next
    case False
    with Cons.prems have ne: "findIndex P xs \<noteq> - 1"
      by (auto simp: Let_def split: if_splits)
    then have ge: "0 \<le> findIndex P xs" using findIndex_range by blast
    from False ne have eq: "findIndex P (x # xs) = findIndex P xs + 1"
      by (simp add: Let_def)
    from ge have n: "nat (findIndex P xs + 1) = Suc (nat (findIndex P xs))" by simp
    from Cons.IH [OF ne] False show ?thesis
      unfolding eq n by (auto simp: less_Suc_eq_0_disj)
  qed
qed

lemma arrow_keys_simps:
  "handleMenuKeydown p st ''ArrowUp'' = (goToPreviousItem p st, [PreventDefault])"
  "handleMenuKeydown p st ''ArrowDown'' = (goToNextItem p st, [PreventDefault])"
  by (simp_all add: handleMenuKeydown_def)

lemma search_goTo [simp]:
  "search (goToPreviousItem p st) = search st"
  "search (goToNextItem p st) = search st"
  by (simp_all add: goToPreviousItem_def goToNextItem_def split: option.splits)

lemma dispatch_arrows:
  "dispatch p st (MenuKeydown ''ArrowUp'') = (goToPreviousItem p st, [PreventDefault])"
  "dispatch p st (MenuKeydown ''ArrowDown'') = (goToNextItem p st, [PreventDefault])"
  by (simp_all add: dispatch_def arrow_keys_simps)

lemma inBounds_goTo:
  "inBounds p st \<Longrightarrow> inBounds p (goToPreviousItem p st)"
  "inBounds p st \<Longrightarrow> inBounds p (goToNextItem p st)"
  by (auto simp: inBounds_def goToPreviousItem_def goToNextItem_def split: option.splits)

lemma inBounds_run_arrows:
  "inBounds p st \<Longrightarrow> set ks \<subseteq> {''ArrowUp'', ''ArrowDown''} \<Longrightarrow>
     inBounds p (run p st (map MenuKeydown ks))"
proof (induction ks arbitrary: st)
  case Nil
  then show ?case by simp
next
  case (Cons k ks)
  from Cons.prems(2) have k: "k = ''ArrowUp'' \<or> k = ''ArrowDown''" by simp
  from Cons.prems(2) have ks: "set ks \<subseteq> {''ArrowUp'', ''ArrowDown''}" by simp
  from k Cons.prems(1) have "inBounds p (fst (dispatch p st (MenuKeydown k)))"
    by (auto simp: dispatch_arrows inBounds_goTo)
  from Cons.IH [OF this ks] show ?case by simp
qed

subsection \<open>Arrow keys\<close>

text \<open>
  C3. For an option list of length \<open>n\<close> and a focus cursor \<open>i\<close> in \<open>[0, n-1]\<close>, the key
  ArrowDown moves the cursor to \<open>i + 1\<close>, clamped to the last index \<open>n - 1\<close>, and ArrowUp
  moves it to \<open>i - 1\<close>, clamped to \<open>0\<close>; there is no wraparound. Hence after any sequence
  of ArrowDown and ArrowUp keys the cursor is still set and within \<open>[0, n-1]\<close>.
\<close>

theorem arrows_clamped:
  assumes "focusedIndex st = Some i" and "0 \<le> i" and "i < int (length (children p))"
  shows "focusedIndex (fst (dispatch p st (MenuKeydown ''ArrowDown'')))
           = Some (min (i + 1) (int (length (children p)) - 1))
       \<and> focusedIndex (fst (dispatch p st (MenuKeydown ''ArrowUp''))) = Some (max (i - 1) 0)
       \<and> (\<forall>ks. set ks \<subseteq> {''ArrowUp'', ''ArrowDown''} \<longrightarrow>
            (\<exists>j. focusedIndex (run p st (map MenuKeydown ks)) = Some j
                 \<and> 0 \<le> j \<and> j < int (length (children p))))"
proof (intro conjI allI impI)
  show "focusedIndex (fst (dispatch p st (MenuKeydown ''ArrowDown'')))
           = Some (min (i + 1) (int (length (children p)) - 1))"
    using assms by (auto simp: dispatch_arrows goToNextItem_def)
  show "focusedIndex (fst (dispatch p st (MenuKeydown ''ArrowUp''))) = Some (max (i - 1) 0)"
    using assms by (auto simp: dispatch_arrows goToPreviousItem_def)
next
  fix ks :: "string list"
  assume ks: "set ks \<subseteq> {''ArrowUp'', ''ArrowDown''}"
  from assms have "inBounds p st" by (simp add: inBounds_def)
  from inBounds_run_arrows [OF this ks]
  show "\<exists>j. focusedIndex (run p st (map MenuKeydown ks)) = Some j
             \<and> 0 \<le> j \<and> j < int (length (children p))"
    by (auto simp: inBounds_def split: option.splits)
qed

theorem arrows_clamped_witness:
  "focusedIndex (initialState\<lparr>focusedIndex := Some 2\<rparr>) = Some 2 \<and> (0::int) \<le> 2
   \<and> (2::int) < int (length (children fruitSelect))
   \<and> focusedIndex (fst (dispatch fruitSelect (initialState\<lparr>focusedIndex := Some 2\<rparr>)
        (MenuKeydown ''ArrowDown''))) = Some 2
   \<and> focusedIndex (fst (dispatch fruitSelect (initialState\<lparr>focusedIndex := Some 2\<rparr>)
        (MenuKeydown ''ArrowUp''))) = Some 1"
proof -
  have h1: "focusedIndex (initialState\<lparr>focusedIndex := Some 2\<rparr>) = Some 2" by simp
  have h2: "(0::int) \<le> 2" by simp
  have h3: "(2::int) < int (length (children fruitSelect))" by (simp add: fruitSelect_def)
  from arrows_clamped [OF h1 h2 h3] h1 h2 h3 show ?thesis
    by (simp add: fruitSelect_def)
qed

subsection \<open>Character keys on an unsearchable option set\<close>

lemma search_close [simp]: "search (fst (close p st)) = search st"
  by (simp add: close_def)

lemma search_open [simp]: "search (fst (open p st)) = search st"
  by (simp add: open_def split: prod.splits if_splits)

lemma not_searchable_keydown_search:
  "\<not> isSearchable p \<Longrightarrow> search (fst (handleMenuKeydown p st key)) = search st"
  by (auto simp: handleMenuKeydown_def close_def split: prod.splits if_splits)

lemma single_char_keydown:
  assumes "length key = 1"
  shows "handleMenuKeydown p st key =
           (if isAlphanumeric key \<and> isSearchable p then (st\<lparr>search := search st @ key\<rparr>, [])
            else (st, []))"
proof -
  from assms have "key \<noteq> ''ArrowUp''" "key \<noteq> ''ArrowDown''" "key \<noteq> ''Escape''"
    by auto
  with assms show ?thesis by (simp add: handleMenuKeydown_def)
qed

lemma other_key_keydown:
  assumes "\<not> isSearchable p" and "key \<notin> {''ArrowUp'', ''ArrowDown'', ''Escape''}"
  shows "dispatch p st (MenuKeydown key) = (st, [])"
  using assms by (simp add: dispatch_def handleMenuKeydown_def)

lemma not_searchable_dispatch:
  assumes "\<not> isSearchable p" and "length key = 1"
  shows "dispatch p st (MenuKeydown key) = (st, [])"
  using assms by (simp add: dispatch_def single_char_keydown)

lemma not_searchable_run:
  assumes "\<not> isSearchable p"
  shows "list_all (\<lambda>k. length k = 1) keys \<Longrightarrow> run p st (map MenuKeydown keys) = st"
  using assms by (induction keys) (simp_all add: not_searchable_dispatch)

text \<open>
  C4. When the option values are not all strings and no projection function is supplied,
  the option set is not searchable and character input in the menu is ignored: no key in
  the menu changes the search buffer, and a key of one character (any run of such keys,
  and indeed every key other than ArrowUp, ArrowDown and Escape) leaves the whole state,
  the focus cursor included, as it was and calls nothing.
\<close>

theorem unsearchable_keys_ignored:
  assumes "\<not> list_all isString (allOptionValues p)" and "getSearchableValue p = None"
  shows "\<not> isSearchable p
       \<and> (\<forall>key. search (fst (dispatch p st (MenuKeydown key))) = search st)
       \<and> (\<forall>key. length key = 1 \<longrightarrow> dispatch p st (MenuKeydown key) = (st, []))
       \<and> (\<forall>key. key \<notin> {''ArrowUp'', ''ArrowDown'', ''Escape''} \<longrightarrow>
             dispatch p st (MenuKeydown key) = (st, []))
       \<and> (\<forall>keys. list_all (\<lambda>k. length k = 1) keys \<longrightarrow> run p st (map MenuKeydown keys) = st)"
proof -
  from assms have ns: "\<not> isSearchable p"
    by (simp add: isSearchable_def isNaturallySearchable_def)
  have "search (fst (dispatch p st (MenuKeydown key))) = search st" for key
    using not_searchable_keydown_search [OF ns, of st key]
    by (simp add: dispatch_def case_prod_beta)
  with ns show ?thesis
    by (simp add: not_searchable_dispatch not_searchable_run other_key_keydown)
qed

theorem unsearchable_keys_ignored_witness:
  "\<not> list_all isString (allOptionValues idSelect) \<and> getSearchableValue idSelect = None
   \<and> \<not> isSearchable idSelect
   \<and> length ''a'' = 1
   \<and> dispatch idSelect (initialState\<lparr>focusedIndex := Some 1, uncontrolledOpen := True\<rparr>)
        (MenuKeydown ''a'')
       = (initialState\<lparr>focusedIndex := Some 1, uncontrolledOpen := True\<rparr>, [])"
proof -
  have h1: "\<not> list_all isString (allOptionValues idSelect)"
    by (simp add: allOptionValues_def idSelect_def idOption_def)
  have h2: "getSearchableValue idSelect = None" by (simp add: idSelect_def)
  have h3: "length ''a'' = 1" by simp
  from unsearchable_keys_ignored [OF h1 h2] h1 h2 h3 show ?thesis by blast
qed

subsection \<open>Arrow keys before the focus cursor is set\<close>

text \<open>
  C10. While the focus cursor is null, \<open>goToPreviousItem\<close> and \<open>goToNextItem\<close> return
  the state as it is, and so do the keys ArrowUp and ArrowDown in the menu, which only
  prevent the default action: the handlers have no failing branch, and after any sequence
  of arrow keys the cursor is still null and nothing else has changed.
\<close>

theorem null_focus_arrows_noop:
  assumes "focusedIndex st = None"
  shows "goToPreviousItem p st = st \<and> goToNextItem p st = st
       \<and> dispatch p st (MenuKeydown ''ArrowUp'') = (st, [PreventDefault])
       \<and> dispatch p st (MenuKeydown ''ArrowDown'') = (st, [PreventDefault])
       \<and> (\<forall>ks. set ks \<subseteq> {''ArrowUp'', ''ArrowDown''} \<longrightarrow> run p st (map MenuKeydown ks) = st)"
proof -
  from assms have prev: "goToPreviousItem p st = st" and nxt: "goToNextItem p st = st"
    by (simp_all add: goToPreviousItem_def goToNextItem_def)
  have "set ks \<subseteq> {''ArrowUp'', ''ArrowDown''} \<Longrightarrow> run p st (map MenuKeydown ks) = st" for ks
    by (induction ks) (auto simp: dispatch_arrows prev nxt)
  with prev nxt show ?thesis by (simp add: dispatch_arrows)
qed

theorem null_focus_arrows_noop_witness:
  "focusedIndex initialState = None
   \<and> dispatch fruitSelect initialState (MenuKeydown ''ArrowDown'') = (initialState, [PreventDefault])
   \<and> dispatch fruitSelect initialState (MenuKeydown ''ArrowUp'') = (initialState, [PreventDefault])
   \<and> focusedIndex (run fruitSelect initialState
        [MenuKeydown ''ArrowDown'', MenuKeydown ''ArrowDown'', MenuKeydown ''ArrowUp'']) = None"
proof -
  have h: "focusedIndex initialState = None" by (simp add: initialState_def)
  have s: "set [''ArrowDown'', ''ArrowDown'', ''ArrowUp''] \<subseteq> {''ArrowUp'', ''ArrowDown''}"
    by simp
  from null_focus_arrows_noop [OF h, of fruitSelect]
  have "run fruitSelect initialState (map MenuKeydown [''ArrowDown'', ''ArrowDown'', ''ArrowUp''])
          = initialState"
    using s by blast
  with null_focus_arrows_noop [OF h, of fruitSelect] h show ?thesis by simp
qed

subsection \<open>Opening and closing\<close>

lemma uncontrolledOpen_searchEffect [simp]:
  "uncontrolledOpen (searchEffect p st) = uncontrolledOpen st"
  by (simp add: searchEffect_def clearTimeout_def setTimeout_def Let_def split: option.splits)

lemma uncontrolledOpen_elapse [simp]: "uncontrolledOpen (elapse ms st) = uncontrolledOpen st"
  by (simp add: elapse_def Let_def)

lemma uncontrolledOpen_goTo [simp]:
  "uncontrolledOpen (goToPreviousItem p st) = uncontrolledOpen st"
  "uncontrolledOpen (goToNextItem p st) = uncontrolledOpen st"
  by (simp_all add: goToPreviousItem_def goToNextItem_def split: option.splits)

lemma controlled_open:
  "controlledOpen p = Some b \<Longrightarrow>
     open p st = (st\<lparr>focusedIndex := Some (selectedIndexOrZero p)\<rparr>, callIfSupplied (onOpen p) OnOpen)"
  by (simp add: open_def isControlled_def)

lemma controlled_close:
  "controlledOpen p = Some b \<Longrightarrow> close p st = (st, callIfSupplied (onClose p) OnClose)"
  by (simp add: close_def isControlled_def)

lemma controlled_handle:
  assumes "controlledOpen p = Some b"
  shows "uncontrolledOpen (fst (handle p st ev)) = uncontrolledOpen st"
proof (cases ev)
  case AnchorClick
  with assms show ?thesis
    by (simp add: handleAnchorClick_def controlled_open controlled_close)
next
  case (AnchorKeydown key)
  with assms show ?thesis by (simp add: handleAnchorKeydown_def controlled_open)
next
  case (MenuKeydown key)
  with assms show ?thesis
    by (simp add: handleMenuKeydown_def controlled_close)
next
  case (OptionActivated i)
  then show ?thesis by (simp add: activateOption_def handleChildChange_def)
next
  case DropdownClose
  with assms show ?thesis by (simp add: controlled_close)
next
  case (Elapse ms)
  then show ?thesis by simp
qed

text \<open>
  C8. When the \<open>isOpen\<close> prop is supplied, \<open>open\<close> calls \<open>onOpen\<close> and \<open>close\<close> calls
  \<open>onClose\<close> (each when the owner supplied it) and neither writes the internal open flag:
  \<open>open\<close> only sets the focus cursor, \<open>close\<close> returns the state as it is, and no event at
  all changes \<open>uncontrolledOpen\<close>.
\<close>

theorem controlled_open_state_untouched:
  assumes "controlledOpen p = Some b"
  shows "open p st
           = (st\<lparr>focusedIndex := Some (selectedIndexOrZero p)\<rparr>, callIfSupplied (onOpen p) OnOpen)
       \<and> close p st = (st, callIfSupplied (onClose p) OnClose)
       \<and> uncontrolledOpen (fst (open p st)) = uncontrolledOpen st
       \<and> uncontrolledOpen (fst (close p st)) = uncontrolledOpen st
       \<and> (\<forall>ev. uncontrolledOpen (fst (dispatch p st ev)) = uncontrolledOpen st)"
proof -
  have "uncontrolledOpen (fst (dispatch p st ev)) = uncontrolledOpen st" for ev
    using controlled_handle [OF assms, of st ev] by (simp add: dispatch_def case_prod_beta)
  then show ?thesis
    by (simp add: controlled_open [OF assms] controlled_close [OF assms])
qed

theorem controlled_open_state_untouched_witness:
  "controlledOpen controlledFruitSelect = Some False
   \<and> open controlledFruitSelect initialState = (initialState\<lparr>focusedIndex := Some 0\<rparr>, [OnOpen])
   \<and> close controlledFruitSelect initialState = (initialState, [OnClose])
   \<and> uncontrolledOpen (fst (dispatch controlledFruitSelect initialState AnchorClick)) = False"
proof -
  have h: "controlledOpen controlledFruitSelect = Some False"
    by (simp add: controlledFruitSelect_def)
  have z: "selectedIndexOrZero controlledFruitSelect = 0"
    by (simp add: selectedIndexOrZero_def selectedIndex_def controlledFruitSelect_def
        fruitSelect_def fruitOption_def)
  have c: "onOpen controlledFruitSelect" "onClose controlledFruitSelect"
    by (simp_all add: controlledFruitSelect_def)
  have u: "uncontrolledOpen initialState = False" by (simp add: initialState_def)
  from controlled_open_state_untouched [OF h, of initialState] h z c u show ?thesis
    by (simp add: callIfSupplied_def)
qed

text \<open>
  C5, as amended. A click on the anchor toggles the menu: with the open state
  uncontrolled, a click on a closed menu opens it and a click on an open menu closes it;
  with the open state controlled, the click calls \<open>onOpen\<close> on a closed menu and
  \<open>onClose\<close> on an open one, and what is shown stays the \<open>isOpen\<close> prop. The Space key on
  the anchor does not toggle: it runs \<open>open\<close> whatever the state, so it opens a closed
  menu and leaves an open one open.
\<close>

theorem anchor_click_toggles_space_opens:
  "isOpen p (fst (handleAnchorClick p st)) = (if isControlled p then isOpen p st else \<not> isOpen p st)
   \<and> snd (handleAnchorClick p st)
       = (if isControlled p
          then (if isOpen p st then callIfSupplied (onClose p) OnClose
                else callIfSupplied (onOpen p) OnOpen)
          else [])
   \<and> handleAnchorKeydown p st '' '' = open p st
   \<and> isOpen p (fst (open p st)) = (if isControlled p then isOpen p st else True)
   \<and> snd (open p st) = (if isControlled p then callIfSupplied (onOpen p) OnOpen else [])"
  by (cases "controlledOpen p")
     (simp_all add: handleAnchorClick_def handleAnchorKeydown_def open_def close_def
        isOpen_def isControlled_def)

theorem anchor_click_toggles_space_opens_witness:
  "isOpen fruitSelect (fst (handleAnchorClick fruitSelect initialState))
   \<and> \<not> isOpen fruitSelect
          (fst (handleAnchorClick fruitSelect (fst (handleAnchorClick fruitSelect initialState))))
   \<and> isOpen fruitSelect (fst (handleAnchorKeydown fruitSelect initialState '' ''))
   \<and> snd (handleAnchorClick controlledFruitSelect initialState) = [OnOpen]"
proof -
  have u: "\<not> isControlled fruitSelect" by (simp add: isControlled_def fruitSelect_def)
  have c: "isControlled controlledFruitSelect" "onOpen controlledFruitSelect"
    "\<not> isOpen controlledFruitSelect initialState"
    by (simp_all add: isControlled_def isOpen_def controlledFruitSelect_def)
  have i: "\<not> isOpen fruitSelect initialState"
    by (simp add: isOpen_def fruitSelect_def initialState_def)
  from anchor_click_toggles_space_opens [of fruitSelect initialState]
    anchor_click_toggles_space_opens
      [of fruitSelect "fst (handleAnchorClick fruitSelect initialState)"]
    anchor_click_toggles_space_opens [of controlledFruitSelect initialState]
    u c i
  show ?thesis by (simp add: callIfSupplied_def)
qed

theorem space_on_open_menu_counterexample:
  "isOpen fruitSelect (initialState\<lparr>uncontrolledOpen := True\<rparr>)
   \<and> isOpen fruitSelect
       (fst (dispatch fruitSelect (initialState\<lparr>uncontrolledOpen := True\<rparr>) (AnchorKeydown '' '')))"
  by (simp add: dispatch_def handleAnchorKeydown_def open_def isOpen_def isControlled_def
      fruitSelect_def initialState_def)

subsection \<open>Committing an option\<close>

text \<open>
  C6, as amended. Activating the option at an index calls \<open>onChange\<close> exactly once, with
  that option's value and that index as \<open>{ value, selectedIndex }\<close>, when the owner
  supplied \<open>onChange\<close>, and calls nothing otherwise. The component holds no selection of
  its own: the state after the commit is the state before it, and the selection it shows
  stays the \<open>value\<close> prop until the owner passes a new one.
\<close>

theorem commit_emits_change_only:
  assumes "i < length (children p)"
  shows "dispatch p st (OptionActivated i)
           = (st, if onChangeProp p then [OnChange (opt_value (children p ! i)) (int i)] else [])
       \<and> handleChildChange p st (int i) v = (st, if onChangeProp p then [OnChange v (int i)] else [])
       \<and> items p (fst (dispatch p st (OptionActivated i))) = items p st"
  using assms
  by (simp add: dispatch_def activateOption_def handleChildChange_def handleChange_def
      callIfSupplied_def)

theorem commit_emits_change_only_witness:
  "1 < length (children fruitSelect)
   \<and> dispatch fruitSelect initialState (OptionActivated 1)
       = (initialState, [OnChange (JStr ''banana'') 1])"
proof -
  have h: "1 < length (children fruitSelect)" by (simp add: fruitSelect_def)
  have v: "opt_value (children fruitSelect ! 1) = JStr ''banana''" "onChangeProp fruitSelect"
    by (simp_all add: fruitSelect_def fruitOption_def)
  from commit_emits_change_only [OF h, of initialState] h v show ?thesis by simp
qed

theorem commit_keeps_no_selection_counterexample:
  "valueProp fruitSelect = JUndefined
   \<and> snd (dispatch fruitSelect initialState (OptionActivated 1)) = [OnChange (JStr ''banana'') 1]
   \<and> fst (dispatch fruitSelect initialState (OptionActivated 1)) = initialState
   \<and> \<not> isDeepEqual (valueProp fruitSelect) (JStr ''banana'')
   \<and> \<not> selected (items fruitSelect (fst (dispatch fruitSelect initialState (OptionActivated 1))) ! 1)
   \<and> selectedIndex fruitSelect = None"
  by (simp add: dispatch_def activateOption_def handleChildChange_def handleChange_def
      callIfSupplied_def items_def selectedIndex_def fruitSelect_def fruitOption_def)

subsection \<open>The focus set on opening\<close>

lemma open_focus: "focusedIndex (fst (open p st)) = Some (selectedIndexOrZero p)"
  by (simp add: open_def split: prod.splits if_splits)

lemma selectedIndex_None_iff:
  "(selectedIndex p = None) = (\<forall>c\<in>set (children p). \<not> strictEqual (opt_value c) (valueProp p))"
  using findIndex_none_iff [of "\<lambda>c. strictEqual (opt_value c) (valueProp p)" "children p"]
  by (simp add: selectedIndex_def Let_def)

lemma selectedIndex_Some:
  assumes "selectedIndex p = Some i"
  shows "0 \<le> i \<and> i < int (length (children p))
       \<and> strictEqual (opt_value (children p ! nat i)) (valueProp p)
       \<and> (\<forall>j < nat i. \<not> strictEqual (opt_value (children p ! j)) (valueProp p))"
proof -
  let ?P = "\<lambda>c. strictEqual (opt_value c) (valueProp p)"
  from assms have ne: "findIndex ?P (children p) \<noteq> - 1" and i: "i = findIndex ?P (children p)"
    by (auto simp: selectedIndex_def Let_def split: if_splits)
  from findIndex_range [OF ne] findIndex_first [OF ne] show ?thesis
    unfolding i by simp
qed

text \<open>
  What opening does: the cursor goes to the first option whose value is \<open>===\<close> the value
  prop, and to \<open>0\<close> when there is none.
\<close>

lemma open_focus_strict:
  "focusedIndex (fst (dispatch p st AnchorClick)) =
     (if isOpen p st then focusedIndex st
      else Some (case selectedIndex p of None \<Rightarrow> 0 | Some i \<Rightarrow> i))"
  by (simp add: dispatch_def handleAnchorClick_def open_focus selectedIndexOrZero_def
      case_prod_beta close_def)

text \<open>
  C2. The claim takes the index of the current selection by deep equality. The code takes
  it by \<open>===\<close>: for the options \<open>{id: 1}\<close>, \<open>{id: 2}\<close> and a value prop that is another
  object \<open>{id: 2}\<close>, the second item deep-equals the value and is rendered selected, yet
  opening the closed menu puts the cursor on index \<open>0\<close>, not \<open>1\<close>.
\<close>

theorem open_focus_misses_deep_equal_selection:
  "\<not> isOpen idSelect initialState
   \<and> isDeepEqual (opt_value (children idSelect ! 1)) (valueProp idSelect)
   \<and> \<not> isDeepEqual (opt_value (children idSelect ! 0)) (valueProp idSelect)
   \<and> selected (items idSelect initialState ! 1)
   \<and> isOpen idSelect (fst (dispatch idSelect initialState AnchorClick))
   \<and> focusedIndex (fst (dispatch idSelect initialState AnchorClick)) = Some 0"
  by (simp add: dispatch_def handleAnchorClick_def open_def isOpen_def isControlled_def
      selectedIndexOrZero_def selectedIndex_def items_def idSelect_def idOption_def
      initialState_def)

subsection \<open>A value that deep-equals an option without being it\<close>

lemma items_nth:
  "k < length (children p) \<Longrightarrow>
     items p st ! k =
       \<lparr> selected = isDeepEqual (opt_value (children p ! k)) (valueProp p),
         active = (focusedIndex st = Some (int k)) \<rparr>"
  by (simp add: items_def)

text \<open>
  C9, as amended. The \<open>selected\<close> marker of an item is the deep equality of its value and
  the value prop, while \<open>selectedIndex\<close> is found by \<open>===\<close>. Hence for a value prop that
  deep-equals the value of some option and is \<open>===\<close> to the value of no option at all,
  that option is rendered selected while \<open>selectedIndex\<close> is null, the anchor shows the
  placeholder, and opening puts the cursor on index \<open>0\<close>.
\<close>

theorem deep_equal_copy_selected_not_indexed:
  assumes "k < length (children p)"
    and "isDeepEqual (opt_value (children p ! k)) (valueProp p)"
    and "\<forall>c\<in>set (children p). \<not> strictEqual (opt_value c) (valueProp p)"
  shows "selected (items p st ! k)
       \<and> selectedIndex p = None
       \<and> displayedValue p = placeholder p
       \<and> focusedIndex (fst (open p st)) = Some 0"
proof -
  from assms(3) have none: "selectedIndex p = None" by (simp add: selectedIndex_None_iff)
  from assms(1,2) have "selected (items p st ! k)" by (simp add: items_nth)
  moreover from none have "displayedValue p = placeholder p"
    by (simp add: displayedValue_def selectedChild_def)
  moreover from none have "focusedIndex (fst (open p st)) = Some 0"
    by (simp add: open_focus selectedIndexOrZero_def)
  ultimately show ?thesis using none by simp
qed

theorem deep_equal_copy_selected_not_indexed_witness:
  "1 < length (children idSelect)
   \<and> isDeepEqual (opt_value (children idSelect ! 1)) (valueProp idSelect)
   \<and> \<not> strictEqual (opt_value (children idSelect ! 0)) (valueProp idSelect)
   \<and> \<not> strictEqual (opt_value (children idSelect ! 1)) (valueProp idSelect)
   \<and> selected (items idSelect initialState ! 1)
   \<and> selectedIndex idSelect = None
   \<and> displayedValue idSelect = Some ''Pick an id''
   \<and> focusedIndex (fst (open idSelect initialState)) = Some 0"
proof -
  have h1: "1 < length (children idSelect)" by (simp add: idSelect_def)
  have h2: "isDeepEqual (opt_value (children idSelect ! 1)) (valueProp idSelect)"
    by (simp add: idSelect_def idOption_def)
  have h3: "\<forall>c\<in>set (children idSelect). \<not> strictEqual (opt_value c) (valueProp idSelect)"
    by (simp add: idSelect_def idOption_def)
  have s: "\<not> strictEqual (opt_value (children idSelect ! 0)) (valueProp idSelect)"
    "\<not> strictEqual (opt_value (children idSelect ! 1)) (valueProp idSelect)"
    "placeholder idSelect = Some ''Pick an id''"
    by (simp_all add: idSelect_def idOption_def)
  from deep_equal_copy_selected_not_indexed [OF h1 h2 h3, of initialState] h1 h2 s
  show ?thesis by simp
qed

theorem deep_equal_twin_counterexample:
  "isDeepEqual (opt_value (children twinSelect ! 1)) (valueProp twinSelect)
   \<and> \<not> strictEqual (opt_value (children twinSelect ! 1)) (valueProp twinSelect)
   \<and> selected (items twinSelect initialState ! 1)
   \<and> selectedIndex twinSelect = Some 0
   \<and> displayedValue twinSelect = Some ''One''
   \<and> displayedValue twinSelect \<noteq> placeholder twinSelect"
  by (simp add: items_def selectedIndex_def displayedValue_def selectedChild_def orElse_def
      twinSelect_def idSelect_def idOption_def)

subsection \<open>The search matcher\<close>

lemma focusedIndex_timers [simp]:
  "focusedIndex (clearTimeout h st) = focusedIndex st"
  "focusedIndex (snd (setTimeout ms st)) = focusedIndex st"
  by (simp_all add: clearTimeout_def setTimeout_def split: option.splits)

text \<open>
  The effect on a non-empty buffer over a searchable option set, in terms of the string
  the code compares: the cursor goes to the first option whose \<open>searchableString\<close> starts
  with the buffer, and stays where it is when there is none.
\<close>

lemma searchEffect_focus:
  assumes "search st \<noteq> []" and "isSearchable p"
  shows "focusedIndex (searchEffect p st) =
           (let m = findIndex (\<lambda>v. startsWith (searchableString p v) (search st))
                      (allOptionValues p)
            in if m \<noteq> - 1 then Some m else focusedIndex st)"
  using assms
  by (simp add: searchEffect_def Let_def case_prod_beta)

lemma searchableString_cases:
  "getSearchableValue p = None \<Longrightarrow> searchableString p v = String v"
  "getSearchableValue p = Some g \<Longrightarrow> g v \<noteq> [] \<Longrightarrow> searchableString p v = g v"
  "getSearchableValue p = Some g \<Longrightarrow> g v = [] \<Longrightarrow> searchableString p v = String v"
  by (simp_all add: searchableString_def)

lemma searchEffect_no_match:
  assumes "search st \<noteq> []" and "isSearchable p"
    and "\<forall>v\<in>set (allOptionValues p). \<not> startsWith (searchableString p v) (search st)"
  shows "focusedIndex (searchEffect p st) = focusedIndex st"
  using assms findIndex_none_iff [of "\<lambda>v. startsWith (searchableString p v) (search st)"
      "allOptionValues p"]
  by (simp add: searchEffect_focus)

lemma searchEffect_first_match:
  assumes "search st \<noteq> []" and "isSearchable p"
    and "v \<in> set (allOptionValues p)" and "startsWith (searchableString p v) (search st)"
  shows "\<exists>m. focusedIndex (searchEffect p st) = Some (int m) \<and> m < length (allOptionValues p)
           \<and> startsWith (searchableString p (allOptionValues p ! m)) (search st)
           \<and> (\<forall>j<m. \<not> startsWith (searchableString p (allOptionValues p ! j)) (search st))"
proof -
  let ?P = "\<lambda>v. startsWith (searchableString p v) (search st)"
  let ?m = "findIndex ?P (allOptionValues p)"
  from assms(3,4) have ne: "?m \<noteq> - 1" using findIndex_none_iff [of ?P "allOptionValues p"]
    by blast
  from findIndex_range [OF ne] have r: "0 \<le> ?m" "nat ?m < length (allOptionValues p)"
    by linarith+
  from assms(1,2) ne have "focusedIndex (searchEffect p st) = Some ?m"
    by (simp add: searchEffect_focus)
  with r findIndex_first [OF ne] show ?thesis
    by (intro exI [of _ "nat ?m"]) simp
qed

text \<open>The spec's scenario: typing \<open>b\<close>, \<open>a\<close> over apple, banana, cherry focuses banana.\<close>

lemma scenario_ba:
  "focusedIndex (run fruitSelect initialState [MenuKeydown ''b'', MenuKeydown ''a'']) = Some 1"
  by (simp add: dispatch_def handleMenuKeydown_def isAlphanumeric_def isAlnumChar_def
      isSearchable_def isNaturallySearchable_def allOptionValues_def searchEffect_def
      clearTimeout_def setTimeout_def searchableString_def fruitSelect_def fruitOption_def
      initialState_def Let_def)

text \<open>
  C1. The claim takes the searchable string of an option to be the projection's result
  whenever a projection is supplied. The code computes \<open>getSearchableValue?.(v) ||
  String(v)\<close>, so a projection that returns the empty string is replaced by \<open>String(v)\<close>:
  with a projection that gives \<open>apple\<close> the empty string, no projected string starts
  with the buffer \<open>a\<close>, yet typing \<open>a\<close> moves the cursor from null to index \<open>0\<close>.
\<close>

theorem empty_projection_falls_back_to_String:
  "isSearchable hiddenAppleSelect
   \<and> getSearchableValue hiddenAppleSelect = Some hideApple
   \<and> map hideApple (allOptionValues hiddenAppleSelect) = ['''', ''banana'', ''cherry'']
   \<and> \<not> startsWith '''' ''a'' \<and> \<not> startsWith ''banana'' ''a'' \<and> \<not> startsWith ''cherry'' ''a''
   \<and> focusedIndex initialState = None
   \<and> search (fst (dispatch hiddenAppleSelect initialState (MenuKeydown ''a''))) = ''a''
   \<and> focusedIndex (fst (dispatch hiddenAppleSelect initialState (MenuKeydown ''a''))) = Some 0"
  by (simp add: dispatch_def handleMenuKeydown_def isAlphanumeric_def isAlnumChar_def
      isSearchable_def isNaturallySearchable_def allOptionValues_def searchEffect_def
      clearTimeout_def setTimeout_def searchableString_def hiddenAppleSelect_def hideApple_def
      fruitSelect_def fruitOption_def initialState_def Let_def)

subsection \<open>The timer that clears the search buffer\<close>





lemma search_searchEffect [simp]: "search (searchEffect p st) = search st"
  by (simp add: searchEffect_def clearTimeout_def setTimeout_def Let_def split: option.splits)






lemma timers_goTo [simp]:
  "pendingTimeouts (goToPreviousItem p st) = pendingTimeouts st"
  "pendingTimeouts (goToNextItem p st) = pendingTimeouts st"
  "searchClearTimeout (goToPreviousItem p st) = searchClearTimeout st"
  "searchClearTimeout (goToNextItem p st) = searchClearTimeout st"
  "nextHandle (goToPreviousItem p st) = nextHandle st"
  "nextHandle (goToNextItem p st) = nextHandle st"
  by (simp_all add: goToPreviousItem_def goToNextItem_def split: option.splits)

lemma timers_open [simp]:
  "pendingTimeouts (fst (open p st)) = pendingTimeouts st"
  "searchClearTimeout (fst (open p st)) = searchClearTimeout st"
  "nextHandle (fst (open p st)) = nextHandle st"
  by (simp_all add: open_def)

lemma timers_close [simp]:
  "pendingTimeouts (fst (close p st)) = pendingTimeouts st"
  "searchClearTimeout (fst (close p st)) = searchClearTimeout st"
  "nextHandle (fst (close p st)) = nextHandle st"
  by (simp_all add: close_def)






















end
